theory Spec2Isabelle
  imports Main "HOL-Library.AList"
begin

section \<open>Values and dictionaries\<close>

text \<open>
  The values that travel through the error pipeline are JSON-shaped Python objects:
  \<open>None\<close>, booleans, integers, strings, lists and dictionaries with string keys.
  Floating-point numbers are left out of the embedding. A Python \<open>dict\<close> is an
  association list in insertion order: \<open>d[k] = v\<close> is \<open>AList.update k v d\<close>,
  \<open>d.get(k)\<close> is \<open>map_of d k\<close> and \<open>d.pop(k, default)\<close> removes the key with
  \<open>AList.delete k d\<close>.
\<close>

datatype json =
    JNull
  | JBool bool
  | JInt int
  | JStr string
  | JList "json list"
  | JDict "(string \<times> json) list"

type_synonym pydict = "(string \<times> json) list"

text \<open>Python truthiness, as used by \<open>if redirect:\<close> and \<open>if notification:\<close>.\<close>

fun truthy :: "json \<Rightarrow> bool" where
  "truthy JNull = False"
| "truthy (JBool b) = b"
| "truthy (JInt n) = (n \<noteq> 0)"
| "truthy (JStr s) = (s \<noteq> [])"
| "truthy (JList xs) = (xs \<noteq> [])"
| "truthy (JDict d) = (d \<noteq> [])"

text \<open>
  \<open>jsonable_encoder\<close> of the web framework, called with its defaults
  (\<open>sqlalchemy_safe=True\<close>), on these values: \<open>None\<close>, booleans, integers and
  strings are returned as they are; a list is encoded item by item; a dictionary is
  encoded entry by entry, in order, and every entry whose key starts with \<open>_sa\<close> is
  left out, at any depth.
\<close>

definition startswith_sa :: "string \<Rightarrow> bool" where
  "startswith_sa key = (take 3 key = ''_sa'')"

primrec jsonable_encoder :: "json \<Rightarrow> json"
  and encode_list :: "json list \<Rightarrow> json list"
  and encode_dict :: "(string \<times> json) list \<Rightarrow> (string \<times> json) list"
  and encode_item :: "string \<times> json \<Rightarrow> string \<times> json" where
  "jsonable_encoder JNull = JNull"
| "jsonable_encoder (JBool b) = JBool b"
| "jsonable_encoder (JInt n) = JInt n"
| "jsonable_encoder (JStr s) = JStr s"
| "jsonable_encoder (JList xs) = JList (encode_list xs)"
| "jsonable_encoder (JDict d) = JDict (encode_dict d)"
| "encode_list [] = []"
| "encode_list (x # xs) = jsonable_encoder x # encode_list xs"
| "encode_dict [] = []"
| "encode_dict (kv # kvs) =
     (if startswith_sa (fst kv) then encode_dict kvs else encode_item kv # encode_dict kvs)"
| "encode_item (key, v) = (key, jsonable_encoder v)"

section \<open>exception.py: the payload classes\<close>

text \<open>
  \<open>ModuleExceptionPayload\<close> (lines 14-23) and its subclass \<open>ResponseException\<close>
  (lines 62-65), which adds the field \<open>custom\<close>, excluded from serialisation.
\<close>

record ModuleExceptionPayload =
  prefix :: string
  msg :: string
  code :: int
  details :: pydict
  redirect :: bool
  notification :: bool

record ResponseException = ModuleExceptionPayload +
  custom :: bool

text \<open>
  The keyword arguments handed to \<open>ResponseException(**error_dict)\<close>. Every field
  of the class may be present or absent; a present field carries a value of the declared
  type. Keyword dictionaries whose fields carry values of other types (which the
  validation library may coerce or reject) are outside the embedding.
\<close>

record error_dict =
  ed_prefix :: "string option"
  ed_msg :: "string option"
  ed_code :: "int option"
  ed_details :: "pydict option"
  ed_redirect :: "bool option"
  ed_notification :: "bool option"
  ed_custom :: "bool option"

text \<open>A decoded JSON text that is not an object.\<close>

datatype non_mapping =
    NNull
  | NBool bool
  | NInt int
  | NStr string
  | NList "json list"

datatype kwargs = Mapping error_dict | NonMapping non_mapping

datatype py_error =
    TypeError_not_a_mapping
  | ValidationError_msg_required

text \<open>
  Construction of a \<open>ResponseException\<close> from keyword arguments: \<open>**\<close> applied to a
  value that is not a mapping raises \<open>TypeError\<close>; the field \<open>msg\<close> has no default,
  so its absence raises the validation error of the model class; every other field
  falls back to its declared default (\<open>code = 500\<close>, \<open>details = {}\<close>,
  \<open>custom = True\<close>).
\<close>

fun ResponseException_init :: "kwargs \<Rightarrow> py_error + ResponseException" where
  "ResponseException_init (NonMapping v) = Inl TypeError_not_a_mapping"
| "ResponseException_init (Mapping d) =
     (case ed_msg d of
        None \<Rightarrow> Inl ValidationError_msg_required
      | Some m \<Rightarrow>
          Inr \<lparr> prefix = (case ed_prefix d of None \<Rightarrow> ''ModuleException'' | Some p \<Rightarrow> p),
                msg = m,
                code = (case ed_code d of None \<Rightarrow> 500 | Some c \<Rightarrow> c),
                details = (case ed_details d of None \<Rightarrow> [] | Some x \<Rightarrow> x),
                redirect = (case ed_redirect d of None \<Rightarrow> False | Some b \<Rightarrow> b),
                notification = (case ed_notification d of None \<Rightarrow> False | Some b \<Rightarrow> b),
                custom = (case ed_custom d of None \<Rightarrow> True | Some b \<Rightarrow> b) \<rparr>)"

text \<open>The direct call \<open>ResponseException(code=c, msg=m)\<close> of the enumeration.\<close>

definition ResponseException_new :: "int \<Rightarrow> string \<Rightarrow> ResponseException" where
  "ResponseException_new c m =
     \<lparr> prefix = ''ModuleException'', msg = m, code = c, details = [],
       redirect = False, notification = False, custom = True \<rparr>"

section \<open>exception.py: the enumeration of descriptors\<close>

datatype ErrorCode =
    BadRequest
  | CouldNotValidateUserCreds
  | UserExpiredSignatureError
  | IncorrUserCreds
  | NotAuthenticated
  | InactiveUser
  | UserRegistrationForbidden
  | UserNotExists
  | UserExists
  | ProjectLocked
  | NameAlreadyExists
  | GTINNotExists
  | GTINAlreadyExists
  | DMCodeNotExists
  | DMCodeAlreadyExists
  | TaskNotFound
  | TaskAlreadyExists
  | SessionNotFound
  | SessionAlreadyExists
  | DeviceDisconnect
  | TooManyRequestsError
  | ValidationError
  | WrongFormat
  | DMCodeValidationError
  | GTINValidationError
  | DMCodeAddingError
  | GTINAddingError
  | Unauthorized
  | AuthorizeError
  | ForbiddenError
  | NotFoundError
  | ResponseProcessingError
  | YookassaApiError
  | InternalError
  | CoreOffline
  | CoreFileUploadingError
  | DbError

text \<open>The value of each member as the module creates it at import time (lines 68-127).\<close>

fun ErrorCode_value :: "ErrorCode \<Rightarrow> ResponseException" where
  "ErrorCode_value BadRequest = ResponseException_new 4000 ''Bad Request''"
| "ErrorCode_value CouldNotValidateUserCreds =
     ResponseException_new 4021 ''Could not validate credentials: ValidationError''"
| "ErrorCode_value UserExpiredSignatureError =
     ResponseException_new 4022 ''Could not validate credentials: ExpiredSignatureError''"
| "ErrorCode_value IncorrUserCreds = ResponseException_new 4023 ''Incorrect login or password''"
| "ErrorCode_value NotAuthenticated = ResponseException_new 4030 ''Not authenticated''"
| "ErrorCode_value InactiveUser = ResponseException_new 4032 ''Inactive user''"
| "ErrorCode_value UserRegistrationForbidden =
     ResponseException_new 4033 ''Open user registration is forbidden on this server''"
| "ErrorCode_value UserNotExists =
     ResponseException_new 4035 ''The user with this username does not exist in the system''"
| "ErrorCode_value UserExists = ResponseException_new 4036 ''The user already exists in the system''"
| "ErrorCode_value ProjectLocked = ResponseException_new 4041 ''Project locked''"
| "ErrorCode_value NameAlreadyExists = ResponseException_new 4044 ''This name already exists''"
| "ErrorCode_value GTINNotExists = ResponseException_new 4045 ''GTIN not found''"
| "ErrorCode_value GTINAlreadyExists = ResponseException_new 4046 ''GTIN already exists''"
| "ErrorCode_value DMCodeNotExists = ResponseException_new 4045 ''DataMatrix code not found''"
| "ErrorCode_value DMCodeAlreadyExists = ResponseException_new 4046 ''DataMatrix code already exists''"
| "ErrorCode_value TaskNotFound = ResponseException_new 4061 ''Task not found''"
| "ErrorCode_value TaskAlreadyExists = ResponseException_new 4062 ''Task already exists''"
| "ErrorCode_value SessionNotFound = ResponseException_new 4071 ''Session not found''"
| "ErrorCode_value SessionAlreadyExists = ResponseException_new 4072 ''Session already exists''"
| "ErrorCode_value DeviceDisconnect = ResponseException_new 4073 ''Some of devices disconnected''"
| "ErrorCode_value TooManyRequestsError = ResponseException_new 4301 ''Too Many Requests''"
| "ErrorCode_value ValidationError = ResponseException_new 4400 ''Validation error''"
| "ErrorCode_value WrongFormat = ResponseException_new 4411 ''Wrong format''"
| "ErrorCode_value DMCodeValidationError = ResponseException_new 4412 ''DMCode validation error''"
| "ErrorCode_value GTINValidationError = ResponseException_new 4413 ''GTIN validation error''"
| "ErrorCode_value DMCodeAddingError = ResponseException_new 4414 ''DMCode adding error''"
| "ErrorCode_value GTINAddingError = ResponseException_new 4415 ''GTIN adding error''"
| "ErrorCode_value Unauthorized =
     ResponseException_new 4501
       ''Sorry, you are not allowed to access this service: UnauthorizedRequest''"
| "ErrorCode_value AuthorizeError = ResponseException_new 4502 ''Authorization error''"
| "ErrorCode_value ForbiddenError = ResponseException_new 4503 ''Forbidden''"
| "ErrorCode_value NotFoundError = ResponseException_new 4504 ''Not Found''"
| "ErrorCode_value ResponseProcessingError = ResponseException_new 4505 ''Response Processing Error''"
| "ErrorCode_value YookassaApiError = ResponseException_new 4511 ''Yookassa Api Error''"
| "ErrorCode_value InternalError = ResponseException_new 5000 ''Internal Server Error''"
| "ErrorCode_value CoreOffline = ResponseException_new 5021 ''Core is offline''"
| "ErrorCode_value CoreFileUploadingError = ResponseException_new 5022 ''Core file uploading error''"
| "ErrorCode_value DbError = ResponseException_new 5041 ''Bad Gateway''"

text \<open>
  The member values are mutable objects shared by the whole process, so the
  enumeration is a store: \<open>exc.value\<close> reads the store at \<open>exc\<close>. The store starts as
  \<open>ErrorCode_value\<close>.
\<close>

type_synonym registry = "ErrorCode \<Rightarrow> ResponseException"

text \<open>The fallback table \<open>HTTP_2_CUSTOM_ERR\<close> (lines 132-134).\<close>

definition HTTP_2_CUSTOM_ERR :: "(int \<times> ResponseException) list" where
  "HTTP_2_CUSTOM_ERR =
     [(422, (ResponseException_new 422 ''Validation error'') \<lparr> custom := False \<rparr>)]"

section \<open>exception.py: raising through \<open>EXC\<close>\<close>

text \<open>
  The \<open>detail\<close> of an \<open>HTTPException\<close> is a string or a dictionary. The decoder
  \<open>json.loads\<close> belongs to the standard library, so a string is given together with
  what the decoder does on it: it raises \<open>JSONDecodeError\<close> (\<open>NonJsonStr\<close>, the string
  itself is kept), it returns a dictionary (\<open>JsonObjectStr\<close>) or it returns a value
  that is not a dictionary (\<open>JsonOtherStr\<close>, for instance the string \<open>123\<close>).
\<close>

datatype detail =
    NonJsonStr string
  | JsonObjectStr error_dict
  | JsonOtherStr non_mapping
  | DictDetail error_dict

record HTTPException =
  status_code :: int
  detail :: detail

text \<open>
  \<open>model_dump_json\<close>: the JSON text of every field but \<open>custom\<close>, which is declared
  with \<open>exclude=True\<close>.
\<close>

definition model_dump_json :: "ResponseException \<Rightarrow> detail" where
  "model_dump_json r =
     JsonObjectStr
       \<lparr> ed_prefix = Some (prefix r), ed_msg = Some (msg r), ed_code = Some (code r),
         ed_details = Some (details r), ed_redirect = Some (redirect r),
         ed_notification = Some (notification r), ed_custom = None \<rparr>"

text \<open>
  \<open>EXC.__init__\<close> (lines 140-157): a copy of the descriptor with \<open>details\<close> replaced
  by \<open>details or {}\<close> and the two flags raised when asked, serialised into the detail
  of an \<open>HTTPException\<close> whose status code is the constant 400.
\<close>

definition EXC :: "registry \<Rightarrow> ErrorCode \<Rightarrow> pydict option \<Rightarrow> bool \<Rightarrow> bool \<Rightarrow> HTTPException" where
  "EXC reg exc details_arg redirect_arg notification_arg =
     (let value = reg exc;
          error_response = value
            \<lparr> details := (case details_arg of None \<Rightarrow> [] | Some d \<Rightarrow> d),
              redirect := (if redirect_arg then True else redirect value),
              notification := (if notification_arg then True else notification value) \<rparr>
      in \<lparr> status_code = 400, detail = model_dump_json error_response \<rparr>)"

section \<open>exception.py: the handlers\<close>

text \<open>\<open>parse_error_detail\<close> (lines 161-170).\<close>

fun parse_error_detail :: "detail \<Rightarrow> py_error + ResponseException" where
  "parse_error_detail (NonJsonStr s) =
     ResponseException_init
       (Mapping \<lparr> ed_prefix = None, ed_msg = Some s, ed_code = Some 5000, ed_details = None,
                  ed_redirect = None, ed_notification = None, ed_custom = Some False \<rparr>)"
| "parse_error_detail (JsonObjectStr d) = ResponseException_init (Mapping d)"
| "parse_error_detail (JsonOtherStr v) = ResponseException_init (NonMapping v)"
| "parse_error_detail (DictDetail d) = ResponseException_init (Mapping d)"

text \<open>
  A response: its status, its JSON body and its raw header list. The headers that the
  framework derives from the body (content length and type) are not part of the
  embedding, so a response that the handlers build starts with an empty list.
\<close>

record JSONResponse =
  response_status_code :: int
  content :: pydict
  headers :: "(string \<times> string) list"

text \<open>
  The code that the response carries (lines 180-187), and the message after the
  assignment \<open>resp_exc.msg = custom_error.msg\<close> of the table branch.
\<close>

definition inner_code :: "ResponseException \<Rightarrow> int" where
  "inner_code resp_exc =
     (if custom resp_exc then code resp_exc
      else (case map_of HTTP_2_CUSTOM_ERR (code resp_exc) of
              Some custom_error \<Rightarrow> code custom_error
            | None \<Rightarrow> 5999))"

definition remap_msg :: "ResponseException \<Rightarrow> ResponseException" where
  "remap_msg resp_exc =
     (if custom resp_exc then resp_exc
      else (case map_of HTTP_2_CUSTOM_ERR (code resp_exc) of
              Some custom_error \<Rightarrow> resp_exc \<lparr> msg := msg custom_error \<rparr>
            | None \<Rightarrow> resp_exc))"

text \<open>
  \<open>create_error_response\<close> (lines 172-205). It works on a copy of the details, takes
  the keys \<open>redirect\<close> and \<open>notification\<close> out of it (their values replace the flags
  of the payload), drops a \<open>reason\<close> that is \<open>None\<close>, and returns the response, whose
  content is \<open>jsonable_encoder(response_data)\<close>: the dictionary branch of the encoder.
  The payload object it was given is returned too, since the table branch assigns to its
  \<open>msg\<close>.
\<close>

definition create_error_response :: "ResponseException \<Rightarrow> ResponseException \<times> JSONResponse" where
  "create_error_response resp_exc =
     (let details0 = details resp_exc;
          redirect_v = (case map_of details0 ''redirect'' of
                          Some v \<Rightarrow> v | None \<Rightarrow> JBool (redirect resp_exc));
          details1 = AList.delete ''redirect'' details0;
          notification_v = (case map_of details1 ''notification'' of
                              Some v \<Rightarrow> v | None \<Rightarrow> JBool (notification resp_exc));
          details2 = AList.delete ''notification'' details1;
          details3 = (case map_of details2 ''reason'' of
                        None \<Rightarrow> AList.delete ''reason'' details2
                      | Some JNull \<Rightarrow> AList.delete ''reason'' details2
                      | Some _ \<Rightarrow> details2);
          code_v = inner_code resp_exc;
          resp_exc' = remap_msg resp_exc;
          status = (if 4000 \<le> code_v \<and> code_v < 5000 then 400 else 500);
          response_data =
            [(''msg'', JStr (msg resp_exc')), (''code'', JInt code_v), (''details'', JDict details3)];
          response_data1 =
            (if truthy redirect_v then AList.update ''redirect'' redirect_v response_data
             else response_data);
          response_data2 =
            (if truthy notification_v
             then AList.update ''notification'' notification_v response_data1
             else response_data1)
      in (resp_exc',
          \<lparr> response_status_code = status, content = encode_dict response_data2,
            headers = [] \<rparr>))"

text \<open>
  \<open>http_exception_handler\<close> and \<open>custom_http_exception_handler\<close> (lines 207-217)
  have the same body. An exception raised by \<open>parse_error_detail\<close> leaves the handler.
\<close>

definition http_exception_handler :: "string \<Rightarrow> HTTPException \<Rightarrow> py_error + JSONResponse" where
  "http_exception_handler path exc =
     (case parse_error_detail (detail exc) of
        Inl e \<Rightarrow> Inl e
      | Inr error \<Rightarrow>
          Inr (snd (create_error_response
                 (error \<lparr> details := AList.update ''endpoint'' (JStr path) (details error) \<rparr>))))"

definition custom_http_exception_handler :: "string \<Rightarrow> HTTPException \<Rightarrow> py_error + JSONResponse" where
  "custom_http_exception_handler path exc =
     (case parse_error_detail (detail exc) of
        Inl e \<Rightarrow> Inl e
      | Inr error \<Rightarrow>
          Inr (snd (create_error_response
                 (error \<lparr> details := AList.update ''endpoint'' (JStr path) (details error) \<rparr>))))"

text \<open>
  \<open>validation_exception_handler\<close> (lines 219-226). \<open>error\<close> is the member value
  itself, not a copy, so the assignment to \<open>error.details\<close> writes into the store.
\<close>

definition validation_exception_handler ::
  "registry \<Rightarrow> string \<Rightarrow> json list \<Rightarrow> registry \<times> JSONResponse" where
  "validation_exception_handler reg path errors =
     (let error = (reg ValidationError)
            \<lparr> details := [(''endpoint'', JStr path), (''errors'', JList errors)] \<rparr>;
          (error', response) = create_error_response error
      in (reg (ValidationError := error'), response))"

section \<open>logger.py: the request middleware\<close>

text \<open>
  The two context variables of \<open>FastAPILoggerAdapter\<close> (lines 101-107), as seen by
  one request.
\<close>

record context_vars =
  TRACE_ID :: string
  REQUEST_ID :: string

definition default_context :: context_vars where
  "default_context = \<lparr> TRACE_ID = ''root'', REQUEST_ID = ''no-request'' \<rparr>"

text \<open>
  Header names do not depend on case. \<open>lower\<close> is \<open>str.lower\<close> on the letters of
  header names. The request carries its header fields as the client sent them; the
  server hands their names over in lower case (\<open>scope_headers\<close>), and the header
  classes of the framework lower-case the key they are asked for: \<open>Headers_get\<close> is the
  first entry of the raw list under that key, and \<open>MutableHeaders_setitem\<close> replaces
  the first entry under the key, removes every later one, and appends when there is
  none.
\<close>

definition lower_char :: "char \<Rightarrow> char" where
  "lower_char c =
     (case map_of (zip ''ABCDEFGHIJKLMNOPQRSTUVWXYZ'' ''abcdefghijklmnopqrstuvwxyz'') c of
        None \<Rightarrow> c
      | Some l \<Rightarrow> l)"

definition lower :: "string \<Rightarrow> string" where
  "lower s = map lower_char s"

record Request =
  url_path :: string
  request_headers :: "(string \<times> string) list"

definition scope_headers :: "Request \<Rightarrow> (string \<times> string) list" where
  "scope_headers request = map (\<lambda>(name, v). (lower name, v)) (request_headers request)"

definition Headers_get :: "(string \<times> string) list \<Rightarrow> string \<Rightarrow> string option" where
  "Headers_get raw key = map_of raw (lower key)"

fun set_raw :: "(string \<times> string) list \<Rightarrow> string \<Rightarrow> string \<Rightarrow> (string \<times> string) list" where
  "set_raw [] set_key v = [(set_key, v)]"
| "set_raw (item # items) set_key v =
     (if fst item = set_key then (set_key, v) # filter (\<lambda>i. fst i \<noteq> set_key) items
      else item # set_raw items set_key v)"

definition MutableHeaders_setitem ::
  "(string \<times> string) list \<Rightarrow> string \<Rightarrow> string \<Rightarrow> (string \<times> string) list" where
  "MutableHeaders_setitem raw key v = set_raw raw (lower key) v"

text \<open>
  \<open>LoggingMiddleware.dispatch\<close> (lines 157-169). The two calls of \<open>uuid.uuid4()\<close>
  are the parameters \<open>uuid1\<close> and \<open>uuid2\<close>, in the order of evaluation. The
  downstream chain \<open>call_next\<close> runs with the context variables set and either returns
  a response or raises; nothing in \<open>dispatch\<close> catches what it raises.
\<close>

definition dispatch ::
  "string \<Rightarrow> string \<Rightarrow> Request \<Rightarrow> (context_vars \<Rightarrow> Request \<Rightarrow> 'e + JSONResponse) \<Rightarrow>
   context_vars \<Rightarrow> ('e + JSONResponse) \<times> context_vars" where
  "dispatch uuid1 uuid2 request call_next ctx =
     (let request_id = uuid1;
          trace_id = (case Headers_get (scope_headers request) ''X-Trace-ID'' of
                        Some v \<Rightarrow> v | None \<Rightarrow> uuid2);
          ctx' = ctx \<lparr> REQUEST_ID := request_id, TRACE_ID := trace_id \<rparr>
      in (case call_next ctx' request of
            Inl e \<Rightarrow> (Inl e, ctx')
          | Inr response \<Rightarrow>
              (Inr (response \<lparr> headers :=
                      MutableHeaders_setitem
                        (MutableHeaders_setitem (headers response) ''X-Request-ID'' request_id)
                        ''X-Trace-ID'' trace_id \<rparr>),
               ctx')))"

section \<open>Facts about the encoder, the table and the response mapper\<close>

lemma map_of_encode_dict:
  "map_of (encode_dict d) k =
     (if startswith_sa k then None else map_option jsonable_encoder (map_of d k))"
  by (induction d) (auto split: prod.splits)

lemma length_encode_list: "length (encode_list xs) = length xs"
  by (induction xs) simp_all

lemma map_of_HTTP_2_CUSTOM_ERR:
  "map_of HTTP_2_CUSTOM_ERR c =
     (if c = 422 then Some ((ResponseException_new 422 ''Validation error'') \<lparr> custom := False \<rparr>)
      else None)"
  by (simp add: HTTP_2_CUSTOM_ERR_def)

lemma inner_code_band:
  "inner_code r = (if custom r then code r else if code r = 422 then 422 else 5999)"
  by (simp add: inner_code_def map_of_HTTP_2_CUSTOM_ERR ResponseException_new_def)

lemma create_error_response_code:
  "map_of (content (snd (create_error_response r))) ''code'' = Some (JInt (inner_code r))"
  by (simp add: create_error_response_def Let_def map_of_encode_dict update_conv'
      startswith_sa_def)

lemma create_error_response_msg:
  "map_of (content (snd (create_error_response r))) ''msg'' = Some (JStr (msg (remap_msg r)))"
  by (simp add: create_error_response_def Let_def map_of_encode_dict update_conv'
      startswith_sa_def)

lemma create_error_response_status_eq:
  "response_status_code (snd (create_error_response r)) =
     (if 4000 \<le> inner_code r \<and> inner_code r < 5000 then 400 else 500)"
  by (simp add: create_error_response_def Let_def)

lemma create_error_response_details:
  "\<exists>ds. map_of (content (snd (create_error_response r))) ''details'' = Some (JDict ds) \<and>
        (\<forall>k. map_of ds k =
           (if k = ''redirect'' \<or> k = ''notification'' then None
            else if k = ''reason'' \<and> map_of (details r) ''reason'' = Some JNull then None
            else if startswith_sa k then None
            else map_option jsonable_encoder (map_of (details r) k)))"
  by (auto simp: create_error_response_def Let_def map_of_encode_dict update_conv' delete_conv'
      startswith_sa_def split: option.splits json.splits)

lemma create_error_response_redirect:
  "map_of (content (snd (create_error_response r))) ''redirect'' =
     (case map_of (details r) ''redirect'' of
        Some v \<Rightarrow> (if truthy v then Some (jsonable_encoder v) else None)
      | None \<Rightarrow> (if redirect r then Some (JBool True) else None))"
  by (auto simp: create_error_response_def Let_def map_of_encode_dict update_conv' delete_conv'
      startswith_sa_def split: option.splits)

lemma create_error_response_notification:
  "map_of (content (snd (create_error_response r))) ''notification'' =
     (case map_of (details r) ''notification'' of
        Some v \<Rightarrow> (if truthy v then Some (jsonable_encoder v) else None)
      | None \<Rightarrow> (if notification r then Some (JBool True) else None))"
  by (auto simp: create_error_response_def Let_def map_of_encode_dict update_conv' delete_conv'
      startswith_sa_def split: option.splits)

text \<open>
  Serialising a payload and parsing it back gives the payload with \<open>custom\<close> reset to
  its default, since the serialised text does not carry that field.
\<close>

lemma parse_model_dump_json:
  "parse_error_detail (model_dump_json r) = Inr (r \<lparr> custom := True \<rparr>)"
  by (simp add: model_dump_json_def)

section \<open>Facts about header lists\<close>

lemma lower_X_Trace_ID: "lower ''X-Trace-ID'' = ''x-trace-id''"
  by (simp add: lower_def lower_char_def)

lemma lower_X_Request_ID: "lower ''X-Request-ID'' = ''x-request-id''"
  by (simp add: lower_def lower_char_def)

lemma map_of_filter_key:
  "map_of (filter (\<lambda>i. fst i \<noteq> k) items) k' = (if k' = k then None else map_of items k')"
  by (induction items) auto

lemma map_of_set_raw:
  "map_of (set_raw items k v) k' = (if k' = k then Some v else map_of items k')"
  by (induction items) (auto simp: map_of_filter_key)

lemma Headers_get_setitem:
  "Headers_get (MutableHeaders_setitem raw key v) key' =
     (if lower key' = lower key then Some v else Headers_get raw key')"
  by (simp add: Headers_get_def MutableHeaders_setitem_def map_of_set_raw)

text \<open>The lookup of a request header finds the first field whose name is the key, whatever the case.\<close>

lemma Headers_get_scope_headers:
  "Headers_get (scope_headers request) key =
     map_option snd (find (\<lambda>kv. lower (fst kv) = lower key) (request_headers request))"
proof -
  have "map_of (map (\<lambda>(name, v). (lower name, v)) hs) k =
          map_option snd (find (\<lambda>kv. lower (fst kv) = k) hs)" for hs :: "(string \<times> string) list" and k
    by (induction hs) auto
  then show ?thesis
    by (simp add: Headers_get_def scope_headers_def)
qed

section \<open>The status of an error response\<close>

text \<open>
  Claim C1. The response that \<open>create_error_response\<close> builds carries the effective
  code of the payload (\<open>inner_code\<close>) in its body; its HTTP status is 400 when that code
  lies in the band from 4000 up to, not including, 5000, and 500 for every other code,
  also those outside both bands. So the status is always 400 or 500.
\<close>

theorem create_error_response_status:
  "map_of (content (snd (create_error_response r))) ''code'' = Some (JInt (inner_code r)) \<and>
   response_status_code (snd (create_error_response r)) =
     (if 4000 \<le> inner_code r \<and> inner_code r < 5000 then 400 else 500) \<and>
   (response_status_code (snd (create_error_response r)) = 400 \<or>
    response_status_code (snd (create_error_response r)) = 500)"
  by (simp add: create_error_response_code create_error_response_status_eq)

section \<open>Details that the parser does not accept\<close>

text \<open>
  Claim C2. The claim says that normalisation never raises. The handler does raise:
  on the string \<open>123\<close>, which the decoder accepts and turns into an integer, the
  keyword construction fails with \<open>TypeError\<close>; on a dictionary without the key
  \<open>msg\<close> the model class rejects the construction. Only \<open>JSONDecodeError\<close> is
  caught in \<open>parse_error_detail\<close>.
\<close>

theorem parse_error_detail_raises:
  "http_exception_handler ''/x'' \<lparr> status_code = 400, detail = JsonOtherStr (NInt 123) \<rparr> =
     Inl TypeError_not_a_mapping \<and>
   http_exception_handler ''/x''
     \<lparr> status_code = 400,
       detail = DictDetail \<lparr> ed_prefix = None, ed_msg = None, ed_code = None, ed_details = None,
                              ed_redirect = None, ed_notification = None, ed_custom = None \<rparr> \<rparr> =
     Inl ValidationError_msg_required"
  by (simp add: http_exception_handler_def)

section \<open>A detail that is not JSON\<close>

text \<open>
  Claim C3, as the code has it. An exception whose detail is a string that the decoder
  rejects is answered with status 500 and a body of code 5999 whose details hold the
  endpoint only; the \<open>msg\<close> of the body is the detail string itself, so the message of
  the exception does reach the client.
\<close>

theorem non_json_detail_response:
  "http_exception_handler path \<lparr> status_code = sc, detail = NonJsonStr s \<rparr> =
     Inr \<lparr> response_status_code = 500,
           content = [(''msg'', JStr s), (''code'', JInt 5999),
                      (''details'', JDict [(''endpoint'', JStr path)])],
           headers = [] \<rparr>"
  by (simp add: http_exception_handler_def create_error_response_def inner_code_band
      remap_msg_def map_of_HTTP_2_CUSTOM_ERR Let_def startswith_sa_def)

text \<open>
  The claim as written fails on the default detail of a 404: the body's \<open>msg\<close> is
  \<open>Not Found\<close>, the message of the exception.
\<close>

theorem non_json_detail_msg_in_body:
  "http_exception_handler ''/users/42'' \<lparr> status_code = 404, detail = NonJsonStr ''Not Found'' \<rparr> =
     Inr \<lparr> response_status_code = 500,
           content = [(''msg'', JStr ''Not Found''), (''code'', JInt 5999),
                      (''details'', JDict [(''endpoint'', JStr ''/users/42'')])],
           headers = [] \<rparr>"
  by (simp add: http_exception_handler_def create_error_response_def inner_code_band
      remap_msg_def map_of_HTTP_2_CUSTOM_ERR Let_def startswith_sa_def)

section \<open>A descriptor raised through \<open>EXC\<close>\<close>

text \<open>
  Claim C5, as the code has it. A descriptor raised through \<open>EXC\<close> with details \<open>d\<close>
  and handled at the request boundary gives a body with the descriptor's \<open>msg\<close> and
  \<open>code\<close>. The details of the body are built from \<open>d\<close>: the key \<open>endpoint\<close> is set
  to the request path; the keys \<open>redirect\<close> and \<open>notification\<close> are removed, and so
  is a \<open>reason\<close> that is \<open>None\<close>; a key that starts with \<open>_sa\<close> is removed by the
  encoder; every other key has its value of \<open>d\<close> as the encoder returns it, which is the
  value without the dictionary keys starting with \<open>_sa\<close> inside it. The body has the
  key \<open>redirect\<close> exactly when the \<open>redirect\<close> of \<open>d\<close> is truthy (the body then
  carries that value, encoded) or, when \<open>d\<close> has no such key, when the flag is raised
  by the caller or set in the descriptor (the body then carries \<open>True\<close>); the same
  holds for \<open>notification\<close>.
\<close>

theorem EXC_pass_through:
  "\<exists>resp ds.
     http_exception_handler path (EXC reg exc d r n) = Inr resp \<and>
     map_of (content resp) ''msg'' = Some (JStr (msg (reg exc))) \<and>
     map_of (content resp) ''code'' = Some (JInt (code (reg exc))) \<and>
     map_of (content resp) ''details'' = Some (JDict ds) \<and>
     (\<forall>k. map_of ds k =
        (if k = ''endpoint'' then Some (JStr path)
         else if k = ''redirect'' \<or> k = ''notification'' then None
         else if k = ''reason'' \<and> map_of (case d of None \<Rightarrow> [] | Some x \<Rightarrow> x) ''reason'' = Some JNull
              then None
         else if startswith_sa k then None
         else map_option jsonable_encoder (map_of (case d of None \<Rightarrow> [] | Some x \<Rightarrow> x) k))) \<and>
     map_of (content resp) ''redirect'' =
       (case map_of (case d of None \<Rightarrow> [] | Some x \<Rightarrow> x) ''redirect'' of
          Some v \<Rightarrow> (if truthy v then Some (jsonable_encoder v) else None)
        | None \<Rightarrow> (if r \<or> redirect (reg exc) then Some (JBool True) else None)) \<and>
     map_of (content resp) ''notification'' =
       (case map_of (case d of None \<Rightarrow> [] | Some x \<Rightarrow> x) ''notification'' of
          Some v \<Rightarrow> (if truthy v then Some (jsonable_encoder v) else None)
        | None \<Rightarrow> (if n \<or> notification (reg exc) then Some (JBool True) else None))"
proof -
  let ?d = "case d of None \<Rightarrow> [] | Some x \<Rightarrow> x"
  let ?p = "(reg exc) \<lparr> details := AList.update ''endpoint'' (JStr path) ?d,
                         redirect := (if r then True else redirect (reg exc)),
                         notification := (if n then True else notification (reg exc)),
                         custom := True \<rparr>"
  have h: "http_exception_handler path (EXC reg exc d r n) = Inr (snd (create_error_response ?p))"
    by (cases "reg exc")
      (simp add: http_exception_handler_def EXC_def Let_def parse_model_dump_json)
  obtain ds where ds: "map_of (content (snd (create_error_response ?p))) ''details'' = Some (JDict ds)"
    and dk: "\<forall>k. map_of ds k =
           (if k = ''redirect'' \<or> k = ''notification'' then None
            else if k = ''reason'' \<and> map_of (details ?p) ''reason'' = Some JNull then None
            else if startswith_sa k then None
            else map_option jsonable_encoder (map_of (details ?p) k))"
    using create_error_response_details [of ?p] by blast
  have m: "map_of (content (snd (create_error_response ?p))) ''msg'' = Some (JStr (msg (reg exc)))"
    by (simp add: create_error_response_msg remap_msg_def)
  have c: "map_of (content (snd (create_error_response ?p))) ''code'' = Some (JInt (code (reg exc)))"
    by (simp add: create_error_response_code inner_code_def)
  have k: "\<forall>k. map_of ds k =
        (if k = ''endpoint'' then Some (JStr path)
         else if k = ''redirect'' \<or> k = ''notification'' then None
         else if k = ''reason'' \<and> map_of ?d ''reason'' = Some JNull then None
         else if startswith_sa k then None
         else map_option jsonable_encoder (map_of ?d k))"
    using dk by (simp add: update_conv' startswith_sa_def)
  have f1: "map_of (content (snd (create_error_response ?p))) ''redirect'' =
       (case map_of ?d ''redirect'' of
          Some v \<Rightarrow> (if truthy v then Some (jsonable_encoder v) else None)
        | None \<Rightarrow> (if r \<or> redirect (reg exc) then Some (JBool True) else None))"
    by (simp add: create_error_response_redirect update_conv' split: option.splits)
  have f2: "map_of (content (snd (create_error_response ?p))) ''notification'' =
       (case map_of ?d ''notification'' of
          Some v \<Rightarrow> (if truthy v then Some (jsonable_encoder v) else None)
        | None \<Rightarrow> (if n \<or> notification (reg exc) then Some (JBool True) else None))"
    by (simp add: create_error_response_notification update_conv' split: option.splits)
  from h ds m c k f1 f2 show ?thesis by blast
qed

text \<open>
  The claim as written fails when the details carry the key \<open>redirect\<close>: the body's
  details are the endpoint alone, and the value has moved to the top of the body.
\<close>

theorem EXC_details_redirect_key_consumed:
  "http_exception_handler ''/x''
     (EXC ErrorCode_value BadRequest (Some [(''redirect'', JBool True)]) False False) =
     Inr \<lparr> response_status_code = 400,
           content = [(''msg'', JStr ''Bad Request''), (''code'', JInt 4000),
                      (''details'', JDict [(''endpoint'', JStr ''/x'')]),
                      (''redirect'', JBool True)],
           headers = [] \<rparr>"
  by (simp add: http_exception_handler_def EXC_def Let_def parse_model_dump_json
      create_error_response_def inner_code_def remap_msg_def ResponseException_new_def
      startswith_sa_def)

section \<open>Validation failures and the shared descriptor\<close>

text \<open>
  The only write to the store is the one of \<open>validation_exception_handler\<close>, which
  replaces the details of the member \<open>ValidationError\<close>. So every store that the
  handlers can reach is the initial one with some details at that member.
\<close>

lemma initial_store_shape:
  "ErrorCode_value =
     ErrorCode_value (ValidationError := (ErrorCode_value ValidationError) \<lparr> details := [] \<rparr>)"
  by (auto simp: fun_eq_iff ResponseException_new_def)

lemma validation_exception_handler_store:
  "fst (validation_exception_handler
          (ErrorCode_value (ValidationError := (ErrorCode_value ValidationError) \<lparr> details := d \<rparr>))
          path errs) =
     ErrorCode_value (ValidationError := (ErrorCode_value ValidationError)
       \<lparr> details := [(''endpoint'', JStr path), (''errors'', JList errs)] \<rparr>)"
  by (simp add: validation_exception_handler_def create_error_response_def Let_def
      remap_msg_def ResponseException_new_def)



text \<open>
  Claim C9. The claim says that no registered descriptor changes when a request is
  handled. One validation failure changes the details of the member
  \<open>ValidationError\<close> from the empty dictionary to the endpoint and errors of that
  request, since the handler assigns to the member value and not to a copy.
\<close>

theorem validation_exception_handler_mutates_descriptor:
  "details (ErrorCode_value ValidationError) = [] \<and>
   details (fst (validation_exception_handler ErrorCode_value ''/items''
                   [JStr ''field required'']) ValidationError) =
     [(''endpoint'', JStr ''/items''), (''errors'', JList [JStr ''field required''])]"
  by (simp add: validation_exception_handler_def create_error_response_def Let_def
      remap_msg_def ResponseException_new_def)

section \<open>The fallback table\<close>

text \<open>
  Claim C8. A payload that is not custom and has the code 422 is answered with the
  message and the code of the table's entry for 422; the message is
  \<open>Validation error\<close>.
\<close>

theorem create_error_response_422:
  "\<exists>custom_error.
     map_of HTTP_2_CUSTOM_ERR 422 = Some custom_error \<and>
     msg custom_error = ''Validation error'' \<and>
     map_of (content (snd (create_error_response (r \<lparr> code := 422, custom := False \<rparr>)))) ''msg'' =
       Some (JStr (msg custom_error)) \<and>
     map_of (content (snd (create_error_response (r \<lparr> code := 422, custom := False \<rparr>)))) ''code'' =
       Some (JInt (code custom_error))"
  by (simp add: create_error_response_msg create_error_response_code inner_code_def remap_msg_def
      map_of_HTTP_2_CUSTOM_ERR ResponseException_new_def)

section \<open>The status code of \<open>EXC\<close>\<close>

text \<open>
  Claim C10. For every member, details and flags, the \<open>HTTPException\<close> that \<open>EXC\<close>
  builds has the status code 400. The status that the client sees comes from the
  handler, which reads the code of the payload: for \<open>InternalError\<close> (code 5000) the
  exception has status code 400 and the response has status 500.
\<close>

theorem EXC_status_code_400:
  "status_code (EXC reg exc d r n) = 400 \<and>
   (\<exists>resp. http_exception_handler path (EXC reg exc d r n) = Inr resp \<and>
      response_status_code resp =
        (if 4000 \<le> code (reg exc) \<and> code (reg exc) < 5000 then 400 else 500)) \<and>
   status_code (EXC ErrorCode_value InternalError d r n) = 400 \<and>
   (\<exists>resp. http_exception_handler path (EXC ErrorCode_value InternalError d r n) = Inr resp \<and>
      response_status_code resp = 500)"
  by (simp add: http_exception_handler_def EXC_def Let_def parse_model_dump_json
      create_error_response_status_eq inner_code_def ResponseException_new_def)

section \<open>The headers that the middleware sets\<close>

text \<open>
  Claim C7, as the code has it. When the downstream chain returns a response, the
  middleware returns it with the headers \<open>X-Request-ID\<close> and \<open>X-Trace-ID\<close> set: the
  request id is the generated one; the trace id is the value of the first inbound
  header field whose name is \<open>X-Trace-ID\<close> in any spelling of upper and lower case,
  and the second generated id when the request has no such field; status and body are
  untouched. When the downstream chain raises, the exception leaves the middleware and
  no response is returned.
\<close>

theorem dispatch_headers:
  "(call_next (ctx \<lparr> REQUEST_ID := uuid1,
                     TRACE_ID := (case find (\<lambda>kv. lower (fst kv) = ''x-trace-id'')
                                         (request_headers request) of
                                    Some kv \<Rightarrow> snd kv | None \<Rightarrow> uuid2) \<rparr>) request = Inr response \<longrightarrow>
      (\<exists>resp. fst (dispatch uuid1 uuid2 request call_next ctx) = Inr resp \<and>
         Headers_get (headers resp) ''X-Request-ID'' = Some uuid1 \<and>
         Headers_get (headers resp) ''X-Trace-ID'' =
           Some (case find (\<lambda>kv. lower (fst kv) = ''x-trace-id'') (request_headers request) of
                   Some kv \<Rightarrow> snd kv | None \<Rightarrow> uuid2) \<and>
         response_status_code resp = response_status_code response \<and>
         content resp = content response)) \<and>
   (call_next (ctx \<lparr> REQUEST_ID := uuid1,
                     TRACE_ID := (case find (\<lambda>kv. lower (fst kv) = ''x-trace-id'')
                                         (request_headers request) of
                                    Some kv \<Rightarrow> snd kv | None \<Rightarrow> uuid2) \<rparr>) request = Inl e \<longrightarrow>
      fst (dispatch uuid1 uuid2 request call_next ctx) = Inl e)"
proof -
  have t: "(case Headers_get (scope_headers request) ''X-Trace-ID'' of
              Some v \<Rightarrow> v | None \<Rightarrow> uuid2) =
           (case find (\<lambda>kv. lower (fst kv) = ''x-trace-id'') (request_headers request) of
              Some kv \<Rightarrow> snd kv | None \<Rightarrow> uuid2)"
    by (simp add: Headers_get_scope_headers lower_X_Trace_ID split: option.splits)
  show ?thesis
    by (simp add: dispatch_def Let_def t Headers_get_setitem lower_X_Trace_ID
        lower_X_Request_ID)
qed

text \<open>
  The theorem at two requests: one that carries a trace id under a lower-case name and
  is served, one that carries none and whose handler raises.
\<close>

theorem dispatch_headers_witness:
  "(\<exists>resp. fst (dispatch ''req-1'' ''gen-1''
               \<lparr> url_path = ''/x'', request_headers = [(''x-trace-id'', ''abc'')] \<rparr>
               (\<lambda>c q. Inr \<lparr> response_status_code = 200, content = [], headers = [] \<rparr>)
               default_context) = (Inr resp :: string + JSONResponse) \<and>
      Headers_get (headers resp) ''X-Request-ID'' = Some ''req-1'' \<and>
      Headers_get (headers resp) ''X-Trace-ID'' = Some ''abc'') \<and>
   fst (dispatch ''req-2'' ''gen-2'' \<lparr> url_path = ''/y'', request_headers = [] \<rparr>
          (\<lambda>c q. Inl ''RuntimeError'') default_context) =
     (Inl ''RuntimeError'' :: string + JSONResponse)"
  using
    dispatch_headers [where call_next = "\<lambda>c q. Inr \<lparr> response_status_code = 200, content = [], headers = [] \<rparr>"
      and ctx = default_context and ?uuid1.0 = "''req-1''" and ?uuid2.0 = "''gen-1''"
      and request = "\<lparr> url_path = ''/x'', request_headers = [(''x-trace-id'', ''abc'')] \<rparr>"
      and response = "\<lparr> response_status_code = 200, content = [], headers = [] \<rparr>"
      and e = "''RuntimeError''"]
    dispatch_headers [where call_next = "\<lambda>c q. Inl ''RuntimeError''"
      and ctx = default_context and ?uuid1.0 = "''req-2''" and ?uuid2.0 = "''gen-2''"
      and request = "\<lparr> url_path = ''/y'', request_headers = [] \<rparr>"
      and response = "\<lparr> response_status_code = 200, content = [], headers = [] \<rparr>"
      and e = "''RuntimeError''"]
  by (auto simp: lower_def lower_char_def)

text \<open>
  The claim as written fails when an exception escapes the downstream chain: the
  middleware returns no response, so no header is set.
\<close>

theorem dispatch_exception_escapes:
  "fst (dispatch ''req-1'' ''gen-1''
          \<lparr> url_path = ''/x'', request_headers = [(''X-Trace-ID'', ''abc'')] \<rparr>
          (\<lambda>c q. Inl ''RuntimeError'') default_context) =
     (Inl ''RuntimeError'' :: string + JSONResponse)"
  by (simp add: dispatch_def Let_def)

end
